theory Spec2Isabelle
  imports Complex_Main
begin

section \<open>Black hole simulation: the data of simulation.js\<close>

text \<open>
  The numbers of the script are IEEE 754 doubles. They are modelled as real numbers: every
  arithmetic operation is the exact one, \<open>Math.sqrt\<close> is the real square root, and the literal
  \<open>0.1\<close> is one tenth; rounding, overflow and NaN are outside the model.
  Division is the one operation of the script that has no real result for some operands
  (a zero divisor gives an infinity or NaN in the script), so it is modelled twice: checked
  (\<open>js_div\<close>, with \<open>None\<close> for a zero divisor) and unchecked, and the two are proved to agree
  where the script divides.
\<close>

definition G :: real where
  "G = 100"

definition M :: real where
  "M = 1000"

definition dt :: real where
  "dt = 1 / 10"

definition BH_RADIUS :: real where
  "BH_RADIUS = 32"

text \<open>An object \<open>{x, y}\<close>: the center, a mouse position, an entry of a trace.\<close>

record point =
  pt_x :: real
  pt_y :: real

text \<open>The object built by the mouseup handler: \<open>{x, y, vx, vy, ax, ay, trace}\<close>.\<close>

record particle =
  p_x :: real
  p_y :: real
  p_vx :: real
  p_vy :: real
  p_ax :: real
  p_ay :: real
  p_trace :: "point list"

text \<open>The object \<open>{ax, ay, r}\<close> returned by \<open>acceleration\<close>.\<close>

record accel =
  a_ax :: real
  a_ay :: real
  a_r :: real

text \<open>
  The global variables of the script. Particle objects live in \<open>heap\<close>; a reference to one is
  its index there, and objects are never freed. The array \<open>particles\<close> holds references, so
  that \<open>indexOf\<close> compares identities, as the script's \<open>===\<close> on objects does.
  \<open>innerWidth\<close> and \<open>innerHeight\<close> are the window's, read by the script when it needs them.
\<close>

record state =
  center :: point
  innerWidth :: real
  innerHeight :: real
  heap :: "particle list"
  particles :: "nat list"
  dragging :: bool
  dragStart :: "point option"
  previewPos :: "point option"

section \<open>The field model\<close>

definition js_div :: "real \<Rightarrow> real \<Rightarrow> real option" where
  "js_div a b = (if b = 0 then None else Some (a / b))"

text \<open>\<open>acceleration(p)\<close>, lines 104 to 118, with every division checked.\<close>

definition acceleration_checked :: "point \<Rightarrow> particle \<Rightarrow> accel option" where
  "acceleration_checked c p =
     (let dx = p_x p - pt_x c;
          dy = p_y p - pt_y c;
          r = sqrt (dx * dx + dy * dy)
      in if r = 0 then Some \<lparr>a_ax = 0, a_ay = 0, a_r = 0\<rparr>
         else
           (case js_div (G * M) (r * r) of
              None \<Rightarrow> None
            | Some aMag \<Rightarrow>
                (case js_div dx r of
                   None \<Rightarrow> None
                 | Some ux \<Rightarrow>
                     (case js_div dy r of
                        None \<Rightarrow> None
                      | Some uy \<Rightarrow>
                          Some \<lparr>a_ax = - aMag * ux, a_ay = - aMag * uy, a_r = r\<rparr>))))"

text \<open>The same function with the division of the reals.\<close>

definition acceleration :: "point \<Rightarrow> particle \<Rightarrow> accel" where
  "acceleration c p =
     (let dx = p_x p - pt_x c;
          dy = p_y p - pt_y c;
          r = sqrt (dx * dx + dy * dy)
      in if r = 0 then \<lparr>a_ax = 0, a_ay = 0, a_r = 0\<rparr>
         else
           (let aMag = (G * M) / (r * r);
                ax = - aMag * (dx / r);
                ay = - aMag * (dy / r)
            in \<lparr>a_ax = ax, a_ay = ay, a_r = r\<rparr>))"

section \<open>The integrator\<close>

text \<open>
  \<open>stepVerlet(p, dt)\<close>, lines 121 to 137: one assignment of the script per line. The
  particle is updated in place; the model returns the updated object and the script's
  return value.
\<close>

definition stepVerlet :: "point \<Rightarrow> particle \<Rightarrow> real \<Rightarrow> particle \<times> real" where
  "stepVerlet c p h =
     (let a0 = acceleration c p;
          p1 = p\<lparr>p_ax := a_ax a0\<rparr>;
          p2 = p1\<lparr>p_ay := a_ay a0\<rparr>;
          p3 = p2\<lparr>p_x := p_x p2 + (p_vx p2 * h + 0.5 * p_ax p2 * h * h)\<rparr>;
          p4 = p3\<lparr>p_y := p_y p3 + (p_vy p3 * h + 0.5 * p_ay p3 * h * h)\<rparr>;
          a1 = acceleration c p4;
          p5 = p4\<lparr>p_vx := p_vx p4 + 0.5 * (p_ax p4 + a_ax a1) * h\<rparr>;
          p6 = p5\<lparr>p_vy := p_vy p5 + 0.5 * (p_ay p5 + a_ay a1) * h\<rparr>;
          p7 = p6\<lparr>p_ax := a_ax a1\<rparr>;
          p8 = p7\<lparr>p_ay := a_ay a1\<rparr>
      in (p8, a_r a1))"

section \<open>Arrays\<close>

text \<open>\<open>Array.prototype.indexOf\<close>: the first index holding the value, or \<open>-1\<close>.\<close>

fun indexOf :: "'a list \<Rightarrow> 'a \<Rightarrow> int" where
  "indexOf [] v = - 1"
| "indexOf (x # xs) v =
     (if x = v then 0
      else (let k = indexOf xs v in if k < 0 then - 1 else k + 1))"

text \<open>
  \<open>xs.splice(start, 1)\<close>: a negative \<open>start\<close> counts from the end and is clamped at 0, a
  \<open>start\<close> beyond the end is clamped at the length, and at most one element is deleted
  from there.
\<close>

definition splice1 :: "'a list \<Rightarrow> int \<Rightarrow> 'a list" where
  "splice1 xs start =
     (let len = int (length xs);
          k = (if start < 0 then max (len + start) 0 else min start len);
          deleteCount = min 1 (len - k)
      in take (nat k) xs @ drop (nat (k + deleteCount)) xs)"

section \<open>The registry and the frame loop\<close>

text \<open>The two conditions of lines 216 and 221 to 227.\<close>

definition swallowed :: "real \<Rightarrow> bool" where
  "swallowed r = (r < BH_RADIUS)"

definition offscreen :: "state \<Rightarrow> particle \<Rightarrow> bool" where
  "offscreen st q =
     (p_x q < - 2000 \<or> p_x q > innerWidth st + 2000 \<or>
      p_y q < - 2000 \<or> p_y q > innerHeight st + 2000)"

text \<open>\<open>particle.trace.push(e); if (particle.trace.length > 1200) particle.trace.shift()\<close>.\<close>

definition record_trace :: "particle \<Rightarrow> particle" where
  "record_trace q =
     (let q1 = q\<lparr>p_trace := p_trace q @ [\<lparr>pt_x = p_x q, pt_y = p_y q\<rparr>]\<rparr>
      in if length (p_trace q1) > 1200 then q1\<lparr>p_trace := tl (p_trace q1)\<rparr> else q1)"

text \<open>
  The body of the loop of lines 210 to 230 for the particle referenced by \<open>p\<close>. The loop
  variable is an object, so the test \<open>particle &&\<close> of line 222 is always true.
\<close>

definition body :: "nat \<Rightarrow> state \<Rightarrow> state" where
  "body p st =
     (let (q, r) = stepVerlet (center st) (heap st ! p) dt;
          q' = record_trace q;
          st1 = st\<lparr>heap := (heap st)[p := q']\<rparr>;
          st2 = (if swallowed r
                 then st1\<lparr>particles := splice1 (particles st1) (indexOf (particles st1) p)\<rparr>
                 else st1);
          st3 = (if offscreen st2 (heap st2 ! p)
                 then st2\<lparr>particles := splice1 (particles st2) (indexOf (particles st2) p)\<rparr>
                 else st2)
      in st3)"

lemma length_splice1_le: "length (splice1 xs k) \<le> length xs"
  by (auto simp add: splice1_def Let_def min_def max_def)

lemma length_particles_body: "length (particles (body p st)) \<le> length (particles st)"
proof -
  have "length (splice1 (splice1 xs a) b) \<le> length xs" for xs :: "nat list" and a b
    using length_splice1_le [of "splice1 xs a" b] length_splice1_le [of xs a] by linarith
  then show ?thesis
    by (simp add: body_def Let_def split_def length_splice1_le)
qed

text \<open>
  \<open>for (const particle of particles)\<close>: the array iterator keeps an index into the live
  array; each round compares it with the array's current length, reads the element there
  and increments it.
\<close>

function forOf :: "nat \<Rightarrow> state \<Rightarrow> state" where
  "forOf i st =
     (if i < length (particles st) then forOf (i + 1) (body (particles st ! i) st) else st)"
  by pat_completeness auto
termination
proof (relation "measure (\<lambda>(i, st). length (particles st) - i)", goal_cases)
  case 1
  show ?case by simp
next
  case (2 i st)
  then show ?case
    using length_particles_body [of "particles st ! i" st] by simp
qed

declare forOf.simps [simp del]

text \<open>Lines 209 to 231 of \<open>animate\<close>: the update of one frame.\<close>

definition tick :: "state \<Rightarrow> state" where
  "tick st = (if length (particles st) > 0 then forOf 0 st else st)"

text \<open>
  \<open>animate\<close>: the update, then the drawing passes, which read the state only. The second
  component lists the references handed to \<open>drawParticle\<close> by the loop of line 273.
\<close>

definition animate :: "state \<Rightarrow> state \<times> nat list" where
  "animate st = (let st' = tick st in (st', particles st'))"

text \<open>\<open>resetParticle\<close>, lines 52 to 55 (the canvas is not part of the model).\<close>

definition resetParticle :: "state \<Rightarrow> state" where
  "resetParticle st = st\<lparr>particles := []\<rparr>"

text \<open>\<open>resize\<close>, lines 13 to 24: the center follows the window.\<close>

definition resize :: "state \<Rightarrow> state" where
  "resize st = st\<lparr>center := \<lparr>pt_x = innerWidth st / 2, pt_y = innerHeight st / 2\<rparr>\<rparr>"

text \<open>The mouse handlers, lines 63 to 93.\<close>

definition mousedown :: "point \<Rightarrow> state \<Rightarrow> state" where
  "mousedown e st = st\<lparr>dragging := True, dragStart := Some e, previewPos := Some e\<rparr>"

definition mousemove :: "point \<Rightarrow> state \<Rightarrow> state" where
  "mousemove e st = (if dragging st then st\<lparr>previewPos := Some e\<rparr> else st)"

text \<open>
  With \<open>dragStart\<close> still \<open>null\<close> the handler would stop at \<open>start.x\<close> with a TypeError,
  after \<open>dragging = false\<close>; the script sets \<open>dragging\<close> only together with \<open>dragStart\<close>.
\<close>

definition mouseup :: "point \<Rightarrow> state \<Rightarrow> state" where
  "mouseup e st =
     (if \<not> dragging st then st
      else
        (let st1 = st\<lparr>dragging := False\<rparr>
         in case dragStart st1 of
              None \<Rightarrow> st1
            | Some start \<Rightarrow>
                (let vscale = 0.05;
                     vx = (pt_x e - pt_x start) * vscale;
                     vy = (pt_y e - pt_y start) * vscale;
                     particle = \<lparr>p_x = pt_x start, p_y = pt_y start, p_vx = vx, p_vy = vy,
                                 p_ax = 0, p_ay = 0, p_trace = []\<rparr>
                 in st1\<lparr>heap := heap st1 @ [particle],
                        particles := particles st1 @ [length (heap st1)]\<rparr>)))"

text \<open>What can happen between two frames, and a frame itself.\<close>

datatype event =
  MouseDown point
| MouseMove point
| MouseUp point
| Reset
| Resize real real
| Frame

fun handle :: "event \<Rightarrow> state \<Rightarrow> state" where
  "handle (MouseDown e) st = mousedown e st"
| "handle (MouseMove e) st = mousemove e st"
| "handle (MouseUp e) st = mouseup e st"
| "handle Reset st = resetParticle st"
| "handle (Resize w h) st = resize (st\<lparr>innerWidth := w, innerHeight := h\<rparr>)"
| "handle Frame st = fst (animate st)"

fun run :: "event list \<Rightarrow> state \<Rightarrow> state" where
  "run [] st = st"
| "run (e # es) st = run es (handle e st)"

text \<open>The state when the script has loaded in a window of the given size.\<close>

definition init :: "real \<Rightarrow> real \<Rightarrow> state" where
  "init w h =
     \<lparr>center = \<lparr>pt_x = w / 2, pt_y = h / 2\<rparr>, innerWidth = w, innerHeight = h,
      heap = [], particles = [], dragging = False, dragStart = None, previewPos = None\<rparr>"

text \<open>
  Every reference of the registry is an allocated object, and no object is registered twice.
\<close>

definition well_formed :: "state \<Rightarrow> bool" where
  "well_formed st = (distinct (particles st) \<and> list_all (\<lambda>p. p < length (heap st)) (particles st))"


section \<open>Vocabulary of the properties\<close>

text \<open>
  What one round of the loop computes for the object \<open>p\<close>: the object after the step and
  the trace update, and the distance returned by the step.
\<close>

definition stepped :: "state \<Rightarrow> nat \<Rightarrow> particle" where
  "stepped st p = record_trace (fst (stepVerlet (center st) (heap st ! p) dt))"

definition step_r :: "state \<Rightarrow> nat \<Rightarrow> real" where
  "step_r st p = snd (stepVerlet (center st) (heap st ! p) dt)"

text \<open>The field as a function of the position alone.\<close>

definition field_at :: "point \<Rightarrow> real \<Rightarrow> real \<Rightarrow> accel" where
  "field_at c a b = acceleration c \<lparr>p_x = a, p_y = b, p_vx = 0, p_vy = 0, p_ax = 0, p_ay = 0, p_trace = []\<rparr>"

text \<open>An allocated object that is not in the registry.\<close>

definition removed :: "nat \<Rightarrow> state \<Rightarrow> bool" where
  "removed p st = (p < length (heap st) \<and> p \<notin> set (particles st))"

text \<open>The center is the middle of the window, as \<open>resize\<close> leaves it.\<close>

definition centered :: "state \<Rightarrow> bool" where
  "centered st =
     (center st = \<lparr>pt_x = innerWidth st / 2, pt_y = innerHeight st / 2\<rparr> \<and>
      0 \<le> innerWidth st \<and> 0 \<le> innerHeight st)"

text \<open>A resize event with a window size that is not negative.\<close>

fun proper_resize :: "event \<Rightarrow> bool" where
  "proper_resize (Resize w h) = (0 \<le> w \<and> 0 \<le> h)"
| "proper_resize e = True"

text \<open>
  The states the script can be in: the state after loading in a window, the state after an
  event, and, inside the loop of a frame, the state after a round for a particle of the
  registry.
\<close>

inductive reachable :: "state \<Rightarrow> bool" where
  loaded: "0 \<le> w \<Longrightarrow> 0 \<le> h \<Longrightarrow> reachable (init w h)"
| event: "reachable st \<Longrightarrow> proper_resize e \<Longrightarrow> reachable (handle e st)"
| round: "reachable st \<Longrightarrow> i < length (particles st) \<Longrightarrow> reachable (body (particles st ! i) st)"

section \<open>Example states\<close>

definition at_rest :: "real \<Rightarrow> real \<Rightarrow> particle" where
  "at_rest a b = \<lparr>p_x = a, p_y = b, p_vx = 0, p_vy = 0, p_ax = 0, p_ay = 0, p_trace = []\<rparr>"

text \<open>
  Two launches without a drag in a window of 800 by 600: the first at the center, the second
  at \<open>(100, 100)\<close>, both at rest.
\<close>

definition two_particles :: state where
  "two_particles =
     run [MouseDown \<lparr>pt_x = 400, pt_y = 300\<rparr>, MouseUp \<lparr>pt_x = 400, pt_y = 300\<rparr>,
          MouseDown \<lparr>pt_x = 100, pt_y = 100\<rparr>, MouseUp \<lparr>pt_x = 100, pt_y = 100\<rparr>]
         (init 800 600)"

text \<open>
  A launch 10 units right of the center: in a window of 800 by 600 with a drag of 20 units,
  and in a window of 16000 by 600 with a drag of 7400 units.
\<close>

definition slow_launch :: state where
  "slow_launch =
     run [MouseDown \<lparr>pt_x = 410, pt_y = 300\<rparr>, MouseUp \<lparr>pt_x = 430, pt_y = 300\<rparr>] (init 800 600)"

definition fast_launch :: state where
  "fast_launch =
     run [MouseDown \<lparr>pt_x = 8010, pt_y = 300\<rparr>, MouseUp \<lparr>pt_x = 15410, pt_y = 300\<rparr>]
         (init 16000 600)"

text \<open>
  Three launches in a window of 4000 by 600 (center \<open>(2000, 300)\<close>): the first 40 units right
  of the center with velocity \<open>(-50, 0)\<close>, the second at the center at rest, the third 1900
  units right of the center at rest.
\<close>

definition three_particles :: state where
  "three_particles =
     run [MouseDown \<lparr>pt_x = 2040, pt_y = 300\<rparr>, MouseUp \<lparr>pt_x = 1040, pt_y = 300\<rparr>,
          MouseDown \<lparr>pt_x = 2000, pt_y = 300\<rparr>, MouseUp \<lparr>pt_x = 2000, pt_y = 300\<rparr>,
          MouseDown \<lparr>pt_x = 3900, pt_y = 300\<rparr>, MouseUp \<lparr>pt_x = 3900, pt_y = 300\<rparr>]
         (init 4000 600)"

text \<open>
  The third particle after \<open>n\<close> steps, for \<open>n\<close> up to 1200: it is still on the horizontal line
  through the center, has moved left by at most \<open>n\<^sup>2 / 2000\<close>, its speed is at most \<open>n / 100\<close>,
  and its trace has \<open>n\<close> entries.
\<close>

definition falling :: "nat \<Rightarrow> particle \<Rightarrow> bool" where
  "falling n q =
     (p_y q = 300 \<and> p_vy q = 0 \<and> 3900 - (real n)\<^sup>2 / 2000 \<le> p_x q \<and> p_x q \<le> 3900 \<and>
      - (real n / 100) \<le> p_vx q \<and> p_vx q \<le> 0 \<and> length (p_trace q) = n)"

text \<open>The states in which the third particle is the only one registered.\<close>

definition solo :: "nat \<Rightarrow> state \<Rightarrow> bool" where
  "solo n st =
     (center st = \<lparr>pt_x = 2000, pt_y = 300\<rparr> \<and> innerWidth st = 4000 \<and> innerHeight st = 600 \<and>
      particles st = [2] \<and> length (heap st) = 3 \<and> falling n (heap st ! 2))"


section \<open>The field model: properties\<close>

lemma acceleration_checked_total: "acceleration_checked c p = Some (acceleration c p)"
  by (simp add: acceleration_checked_def acceleration_def js_div_def Let_def)

lemma acceleration_position:
  "p_x p = p_x q \<Longrightarrow> p_y p = p_y q \<Longrightarrow> acceleration c p = acceleration c q"
  by (simp add: acceleration_def)

lemma a_r_acceleration:
  "a_r (acceleration c p) = sqrt ((p_x p - pt_x c)\<^sup>2 + (p_y p - pt_y c)\<^sup>2)"
  by (simp add: acceleration_def Let_def power2_eq_square)

lemma sqrt_25: "sqrt 25 = 5"
  using real_sqrt_abs [of 5] by simp

text \<open>
  C2. At every position other than the center, \<open>acceleration\<close> returns the distance \<open>r\<close> to the
  center (positive), a vector of magnitude \<open>G * M / r\<^sup>2\<close>, and that vector is \<open>G * M / r\<^sup>2\<close>
  times the unit vector from the position toward the center.
\<close>

theorem acceleration_inverse_square:
  assumes "p_x p \<noteq> pt_x c \<or> p_y p \<noteq> pt_y c"
  shows "(let r = sqrt ((p_x p - pt_x c)\<^sup>2 + (p_y p - pt_y c)\<^sup>2);
              a = acceleration c p;
              ux = (pt_x c - p_x p) / r;
              uy = (pt_y c - p_y p) / r
          in 0 < r \<and> a_r a = r \<and> 0 < G * M / r\<^sup>2 \<and>
             sqrt ((a_ax a)\<^sup>2 + (a_ay a)\<^sup>2) = G * M / r\<^sup>2 \<and>
             ux\<^sup>2 + uy\<^sup>2 = 1 \<and>
             a_ax a = (G * M / r\<^sup>2) * ux \<and>
             a_ay a = (G * M / r\<^sup>2) * uy)"
proof -
  define dx where "dx = p_x p - pt_x c"
  define dy where "dy = p_y p - pt_y c"
  define r where "r = sqrt (dx\<^sup>2 + dy\<^sup>2)"
  define k where "k = G * M / r\<^sup>2"
  define ux where "ux = (pt_x c - p_x p) / r"
  define uy where "uy = (pt_y c - p_y p) / r"
  have nz: "dx \<noteq> 0 \<or> dy \<noteq> 0"
    using assms by (auto simp: dx_def dy_def)
  then have sq: "0 < dx\<^sup>2 + dy\<^sup>2"
    by (metis sum_power2_gt_zero_iff)
  then have rpos: "0 < r"
    by (simp add: r_def)
  have r2: "r\<^sup>2 = dx\<^sup>2 + dy\<^sup>2"
    using sq by (simp add: r_def)
  have u: "ux = - dx / r" "uy = - dy / r"
    by (simp_all add: ux_def uy_def dx_def dy_def)
  have "acceleration c p =
      \<lparr>a_ax = - (G * M / (r * r)) * (dx / r), a_ay = - (G * M / (r * r)) * (dy / r), a_r = r\<rparr>"
    using rpos by (simp add: acceleration_def Let_def dx_def dy_def r_def power2_eq_square)
  then have acc: "acceleration c p = \<lparr>a_ax = k * ux, a_ay = k * uy, a_r = r\<rparr>"
    by (simp add: k_def u power2_eq_square)
  have unit: "ux\<^sup>2 + uy\<^sup>2 = 1"
  proof -
    have "ux\<^sup>2 + uy\<^sup>2 = (dx\<^sup>2 + dy\<^sup>2) / r\<^sup>2"
      unfolding u by (simp add: power_divide add_divide_distrib)
    also have "\<dots> = 1"
      unfolding r2 using nz by (intro divide_self) (metis sum_power2_eq_zero_iff)
    finally show ?thesis .
  qed
  have k: "0 \<le> k"
    by (simp add: k_def G_def M_def)
  have "(k * ux)\<^sup>2 + (k * uy)\<^sup>2 = k\<^sup>2 * (ux\<^sup>2 + uy\<^sup>2)"
    by (simp only: power_mult_distrib distrib_left)
  then have mag: "sqrt ((k * ux)\<^sup>2 + (k * uy)\<^sup>2) = k"
    using k unfolding unit by simp
  have kpos: "0 < k"
    using rpos by (simp add: k_def G_def M_def)
  have "0 < r \<and> a_r (acceleration c p) = r \<and> 0 < k \<and>
      sqrt ((a_ax (acceleration c p))\<^sup>2 + (a_ay (acceleration c p))\<^sup>2) = k \<and>
      ux\<^sup>2 + uy\<^sup>2 = 1 \<and>
      a_ax (acceleration c p) = k * ux \<and> a_ay (acceleration c p) = k * uy"
    unfolding acc using rpos kpos mag unit by simp
  then show ?thesis
    unfolding Let_def k_def ux_def uy_def r_def dx_def dy_def .
qed

theorem acceleration_inverse_square_witness:
  "(let c = \<lparr>pt_x = 0, pt_y = 0\<rparr>;
        p = \<lparr>p_x = 3, p_y = 4, p_vx = 0, p_vy = 0, p_ax = 0, p_ay = 0, p_trace = []\<rparr>;
        a = acceleration c p
    in (p_x p \<noteq> pt_x c \<or> p_y p \<noteq> pt_y c) \<and> a_r a = 5 \<and>
       sqrt ((a_ax a)\<^sup>2 + (a_ay a)\<^sup>2) = 4000 \<and> a_ax a = - 2400 \<and> a_ay a = - 3200)"
  using acceleration_inverse_square
    [of "\<lparr>p_x = 3, p_y = 4, p_vx = 0, p_vy = 0, p_ax = 0, p_ay = 0, p_trace = []\<rparr>"
        "\<lparr>pt_x = 0, pt_y = 0\<rparr>"]
  by (simp add: Let_def sqrt_25 G_def M_def)

text \<open>
  C3. At the center \<open>acceleration\<close> returns \<open>(0, 0, 0)\<close>, and at every position (so at every
  call of the integrator) none of its three divisions has a zero divisor: the checked
  function always returns, and returns what the unchecked one does.
\<close>

theorem acceleration_never_divides_by_zero:
  "acceleration c (p\<lparr>p_x := pt_x c, p_y := pt_y c\<rparr>) = \<lparr>a_ax = 0, a_ay = 0, a_r = 0\<rparr> \<and>
   acceleration_checked c (p\<lparr>p_x := pt_x c, p_y := pt_y c\<rparr>) = Some \<lparr>a_ax = 0, a_ay = 0, a_r = 0\<rparr> \<and>
   acceleration_checked c p = Some (acceleration c p)"
  by (simp add: acceleration_checked_total) (simp add: acceleration_def)

section \<open>The integrator: properties\<close>

text \<open>
  C1. \<open>stepVerlet\<close> is the velocity Verlet step: with \<open>a0\<close> the field at the old position,
  the new position is \<open>position + velocity * h + 0.5 * a0 * h\<^sup>2\<close>; with \<open>a1\<close> the field at
  the new position, the new velocity is \<open>velocity + 0.5 * (a0 + a1) * h\<close>; the stored
  acceleration is \<open>a1\<close>; the trace is untouched; and the value returned is the \<open>r\<close> of \<open>a1\<close>,
  the distance of the new position from the center.
\<close>

theorem stepVerlet_velocity_verlet:
  "stepVerlet c p h =
     (let a0 = acceleration c p;
          x1 = p_x p + p_vx p * h + 0.5 * a_ax a0 * h\<^sup>2;
          y1 = p_y p + p_vy p * h + 0.5 * a_ay a0 * h\<^sup>2;
          a1 = acceleration c (p\<lparr>p_x := x1, p_y := y1\<rparr>)
      in (p\<lparr>p_x := x1, p_y := y1,
            p_vx := p_vx p + 0.5 * (a_ax a0 + a_ax a1) * h,
            p_vy := p_vy p + 0.5 * (a_ay a0 + a_ay a1) * h,
            p_ax := a_ax a1, p_ay := a_ay a1\<rparr>,
          a_r a1))
   \<and> snd (stepVerlet c p h) =
       sqrt ((p_x (fst (stepVerlet c p h)) - pt_x c)\<^sup>2 + (p_y (fst (stepVerlet c p h)) - pt_y c)\<^sup>2)"
proof -
  define a0 where "a0 = acceleration c p"
  define x1 where "x1 = p_x p + p_vx p * h + 0.5 * a_ax a0 * h\<^sup>2"
  define y1 where "y1 = p_y p + p_vy p * h + 0.5 * a_ay a0 * h\<^sup>2"
  define p4 where "p4 = p\<lparr>p_ax := a_ax a0, p_ay := a_ay a0,
      p_x := p_x p + (p_vx p * h + 0.5 * a_ax a0 * h * h),
      p_y := p_y p + (p_vy p * h + 0.5 * a_ay a0 * h * h)\<rparr>"
  have pos: "p_x p4 = x1" "p_y p4 = y1"
    by (simp_all add: p4_def x1_def y1_def power2_eq_square)
  have a1: "acceleration c p4 = acceleration c (p\<lparr>p_x := x1, p_y := y1\<rparr>)"
    by (rule acceleration_position) (simp_all add: pos)
  have step: "stepVerlet c p h =
      (p4\<lparr>p_vx := p_vx p + 0.5 * (a_ax a0 + a_ax (acceleration c p4)) * h,
          p_vy := p_vy p + 0.5 * (a_ay a0 + a_ay (acceleration c p4)) * h,
          p_ax := a_ax (acceleration c p4), p_ay := a_ay (acceleration c p4)\<rparr>,
       a_r (acceleration c p4))"
    by (simp add: stepVerlet_def Let_def p4_def a0_def)
  have first: "stepVerlet c p h =
      (p\<lparr>p_x := x1, p_y := y1,
         p_vx := p_vx p + 0.5 * (a_ax a0 + a_ax (acceleration c (p\<lparr>p_x := x1, p_y := y1\<rparr>))) * h,
         p_vy := p_vy p + 0.5 * (a_ay a0 + a_ay (acceleration c (p\<lparr>p_x := x1, p_y := y1\<rparr>))) * h,
         p_ax := a_ax (acceleration c (p\<lparr>p_x := x1, p_y := y1\<rparr>)),
         p_ay := a_ay (acceleration c (p\<lparr>p_x := x1, p_y := y1\<rparr>))\<rparr>,
       a_r (acceleration c (p\<lparr>p_x := x1, p_y := y1\<rparr>)))"
    unfolding step a1 by (simp add: p4_def x1_def y1_def power2_eq_square)
  have second: "snd (stepVerlet c p h) =
       sqrt ((p_x (fst (stepVerlet c p h)) - pt_x c)\<^sup>2 + (p_y (fst (stepVerlet c p h)) - pt_y c)\<^sup>2)"
    unfolding first by (simp add: a_r_acceleration)
  show ?thesis
    using first second by (simp add: Let_def a0_def x1_def y1_def)
qed

section \<open>Reset\<close>

text \<open>
  C9. From any state, \<open>resetParticle\<close> leaves an empty registry, and the update of the next
  frame then changes nothing and hands nothing to the drawing pass.
\<close>

theorem clear_empties_registry:
  "particles (resetParticle st) = [] \<and> tick (resetParticle st) = resetParticle st \<and>
   animate (resetParticle st) = (resetParticle st, [])"
  by (simp add: resetParticle_def tick_def animate_def)

section \<open>Arrays: properties\<close>

lemma indexOf_notin: "v \<notin> set xs \<Longrightarrow> indexOf xs v = - 1"
  by (induction xs) (auto simp: Let_def)

lemma indexOf_nth: "distinct xs \<Longrightarrow> i < length xs \<Longrightarrow> indexOf xs (xs ! i) = int i"
proof (induction xs arbitrary: i)
  case Nil
  then show ?case by simp
next
  case (Cons x xs)
  show ?case
  proof (cases i)
    case 0
    then show ?thesis by simp
  next
    case (Suc j)
    with Cons.prems have "j < length xs" "distinct xs" "x \<noteq> xs ! j"
      by auto
    with Cons.IH [of j] Suc show ?thesis
      by (simp add: Let_def)
  qed
qed

lemma splice1_at: "i < length xs \<Longrightarrow> splice1 xs (int i) = take i xs @ drop (Suc i) xs"
  by (simp add: splice1_def Let_def min_def nat_add_distrib)

lemma splice1_minus1: "splice1 xs (- 1) = butlast xs"
proof (cases "xs = []")
  case True
  then show ?thesis by (simp add: splice1_def)
next
  case False
  then have "nat (int (length xs) - 1) = length xs - 1" "0 < length xs"
    by auto
  then show ?thesis
    by (simp add: splice1_def Let_def max_def butlast_conv_take)
qed

lemma set_splice1: "set (splice1 xs k) \<subseteq> set xs"
proof -
  have "set (take a xs @ drop b xs) \<subseteq> set xs" for a b
    using set_take_subset [of a xs] set_drop_subset [of b xs] by auto
  then show ?thesis
    by (simp add: splice1_def Let_def)
qed

lemma distinct_take_drop: "distinct xs \<Longrightarrow> a \<le> b \<Longrightarrow> distinct (take a xs @ drop b xs)"
proof -
  assume d: "distinct xs" and ab: "a \<le> b"
  have "set (drop b xs) \<subseteq> set (drop a xs)"
    using ab by (simp add: set_drop_subset_set_drop)
  moreover have "set (take a xs) \<inter> set (drop a xs) = {}"
    using d by (metis append_take_drop_id distinct_append)
  ultimately show ?thesis
    using d by auto
qed

lemma splice1_take_drop: "\<exists>a b. a \<le> b \<and> splice1 xs k = take a xs @ drop b xs"
proof -
  define k' where "k' = (if k < 0 then max (int (length xs) + k) 0 else min k (int (length xs)))"
  have "nat k' \<le> nat (k' + min 1 (int (length xs) - k'))"
    by (auto simp: k'_def min_def max_def)
  moreover have "splice1 xs k = take (nat k') xs @ drop (nat (k' + min 1 (int (length xs) - k'))) xs"
    by (simp add: splice1_def Let_def k'_def)
  ultimately show ?thesis
    by blast
qed

lemma distinct_splice1: "distinct xs \<Longrightarrow> distinct (splice1 xs k)"
  using splice1_take_drop [of xs k] distinct_take_drop [of xs] by auto

lemma nth_notin_remove:
  "distinct xs \<Longrightarrow> i < length xs \<Longrightarrow> xs ! i \<notin> set (take i xs @ drop (Suc i) xs)"
proof -
  assume d: "distinct xs" and i: "i < length xs"
  have "xs = take i xs @ xs ! i # drop (Suc i) xs"
    using i by (simp add: id_take_nth_drop)
  then have "distinct (take i xs @ xs ! i # drop (Suc i) xs)"
    using d by simp
  then show ?thesis
    by auto
qed

text \<open>Removing the particle of the current round.\<close>

lemma splice1_indexOf_nth:
  "distinct xs \<Longrightarrow> i < length xs \<Longrightarrow>
   splice1 xs (indexOf xs (xs ! i)) = take i xs @ drop (Suc i) xs"
  by (simp add: indexOf_nth splice1_at)

lemma splice1_indexOf_absent: "v \<notin> set xs \<Longrightarrow> splice1 xs (indexOf xs v) = butlast xs"
  by (simp add: indexOf_notin splice1_minus1)

section \<open>One round of the loop\<close>

lemma body_unfold:
  "body p st =
     (let ps = particles st;
          hp = (heap st)[p := stepped st p];
          ps1 = (if swallowed (step_r st p) then splice1 ps (indexOf ps p) else ps);
          ps2 = (if offscreen st (hp ! p) then splice1 ps1 (indexOf ps1 p) else ps1)
      in st\<lparr>heap := hp, particles := ps2\<rparr>)"
  by (simp add: body_def Let_def split_def stepped_def step_r_def offscreen_def)

lemma heap_body: "heap (body p st) = (heap st)[p := stepped st p]"
  by (simp add: body_unfold Let_def)

lemma length_heap_body: "length (heap (body p st)) = length (heap st)"
  by (simp add: heap_body)

lemma frame_body:
  "center (body p st) = center st" "innerWidth (body p st) = innerWidth st"
  "innerHeight (body p st) = innerHeight st" "dragging (body p st) = dragging st"
  "dragStart (body p st) = dragStart st" "previewPos (body p st) = previewPos st"
  by (simp_all add: body_unfold Let_def)

lemma particles_body:
  "particles (body p st) =
     (let ps = particles st;
          ps1 = (if swallowed (step_r st p) then splice1 ps (indexOf ps p) else ps)
      in if offscreen st ((heap st)[p := stepped st p] ! p) then splice1 ps1 (indexOf ps1 p) else ps1)"
  by (simp add: body_unfold Let_def)

lemma set_particles_body: "set (particles (body p st)) \<subseteq> set (particles st)"
proof -
  have "set (splice1 (splice1 xs a) b) \<subseteq> set xs" for xs :: "nat list" and a b
    using set_splice1 [of "splice1 xs a" b] set_splice1 [of xs a] by blast
  then show ?thesis
    using set_splice1 [of "particles st"] by (simp add: particles_body Let_def)
qed

lemma distinct_particles_body: "distinct (particles st) \<Longrightarrow> distinct (particles (body p st))"
  by (simp add: particles_body Let_def distinct_splice1)

lemma wf_body: "well_formed st \<Longrightarrow> well_formed (body p st)"
  using set_particles_body [of p st]
  by (auto simp: well_formed_def distinct_particles_body length_heap_body list_all_iff)

text \<open>The four outcomes of one round, for the particle at index \<open>i\<close> of a well-formed registry.\<close>

lemma particles_body_nth:
  assumes "well_formed st" and "i < length (particles st)"
  shows "particles (body (particles st ! i) st) =
     (let ps = particles st; p = ps ! i; gone = take i ps @ drop (Suc i) ps
      in if swallowed (step_r st p)
         then (if offscreen st (stepped st p) then butlast gone else gone)
         else (if offscreen st (stepped st p) then gone else ps))"
proof -
  let ?ps = "particles st"
  let ?p = "?ps ! i"
  let ?gone = "take i ?ps @ drop (Suc i) ?ps"
  have d: "distinct ?ps" and h: "?p < length (heap st)"
    using assms by (auto simp: well_formed_def list_all_iff)
  have at: "(heap st)[?p := stepped st ?p] ! ?p = stepped st ?p"
    using h by simp
  have rm: "splice1 ?ps (indexOf ?ps ?p) = ?gone"
    using d assms(2) by (rule splice1_indexOf_nth)
  have "?p \<notin> set ?gone"
    using d assms(2) by (rule nth_notin_remove)
  then have again: "splice1 ?gone (indexOf ?gone ?p) = butlast ?gone"
    by (rule splice1_indexOf_absent)
  show ?thesis
    by (simp add: particles_body Let_def at rm again)
qed

lemma forOf_unfold:
  "forOf i st =
     (if i < length (particles st) then forOf (Suc i) (body (particles st ! i) st) else st)"
  using forOf.simps [of i st] by simp

lemma set_particles_forOf: "set (particles (forOf i st)) \<subseteq> set (particles st)"
proof (induction i st rule: forOf.induct)
  case (1 i st)
  show ?case
  proof (cases "i < length (particles st)")
    case True
    with 1 have "set (particles (forOf (Suc i) (body (particles st ! i) st)))
        \<subseteq> set (particles (body (particles st ! i) st))"
      by simp
    then show ?thesis
      using True set_particles_body [of "particles st ! i" st] by (subst forOf_unfold) auto
  next
    case False
    then show ?thesis by (subst forOf_unfold) simp
  qed
qed

lemma wf_forOf: "well_formed st \<Longrightarrow> well_formed (forOf i st)"
proof (induction i st rule: forOf.induct)
  case (1 i st)
  show ?case
  proof (cases "i < length (particles st)")
    case True
    with 1 show ?thesis
      by (subst forOf_unfold) (simp add: wf_body)
  next
    case False
    with 1 show ?thesis by (subst forOf_unfold) simp
  qed
qed

lemma length_heap_forOf: "length (heap (forOf i st)) = length (heap st)"
proof (induction i st rule: forOf.induct)
  case (1 i st)
  show ?case
  proof (cases "i < length (particles st)")
    case True
    with 1 show ?thesis
      by (subst forOf_unfold) (simp add: length_heap_body)
  next
    case False
    then show ?thesis by (subst forOf_unfold) simp
  qed
qed

lemma set_particles_tick: "set (particles (tick st)) \<subseteq> set (particles st)"
  by (simp add: tick_def set_particles_forOf)

lemma wf_tick: "well_formed st \<Longrightarrow> well_formed (tick st)"
  by (simp add: tick_def wf_forOf)

lemma length_heap_tick: "length (heap (tick st)) = length (heap st)"
  by (simp add: tick_def length_heap_forOf)

lemma snd_stepVerlet:
  "snd (stepVerlet c p h) =
     sqrt ((p_x (fst (stepVerlet c p h)) - pt_x c)\<^sup>2 + (p_y (fst (stepVerlet c p h)) - pt_y c)\<^sup>2)"
  by (simp add: stepVerlet_def Let_def a_r_acceleration)

lemma p_trace_stepVerlet: "p_trace (fst (stepVerlet c p h)) = p_trace p"
  by (simp add: stepVerlet_def Let_def)

lemma record_trace_frame:
  "p_x (record_trace q) = p_x q" "p_y (record_trace q) = p_y q"
  "p_vx (record_trace q) = p_vx q" "p_vy (record_trace q) = p_vy q"
  "p_ax (record_trace q) = p_ax q" "p_ay (record_trace q) = p_ay q"
  by (simp_all add: record_trace_def Let_def)

lemma p_trace_record_trace:
  "p_trace (record_trace q) =
     drop (if 1200 \<le> length (p_trace q) then 1 else 0) (p_trace q) @ [\<lparr>pt_x = p_x q, pt_y = p_y q\<rparr>]"
  by (cases "p_trace q") (simp_all add: record_trace_def Let_def)

lemma step_r_distance:
  "step_r st p =
     sqrt ((p_x (stepped st p) - pt_x (center st))\<^sup>2 + (p_y (stepped st p) - pt_y (center st))\<^sup>2)"
  by (simp add: step_r_def stepped_def record_trace_frame snd_stepVerlet)

section \<open>Events and removal\<close>

lemma wf_mouseup: "well_formed st \<Longrightarrow> well_formed (mouseup e st)"
  by (auto simp: mouseup_def well_formed_def Let_def list_all_iff split: option.splits)

lemma wf_handle: "well_formed st \<Longrightarrow> well_formed (handle e st)"
proof (cases e)
  case (MouseUp x)
  assume "well_formed st"
  with MouseUp show ?thesis by (simp add: wf_mouseup)
next
  case Frame
  assume "well_formed st"
  with Frame show ?thesis by (simp add: animate_def Let_def wf_tick)
qed (simp_all add: well_formed_def mousedown_def mousemove_def resetParticle_def resize_def)

lemma wf_run: "well_formed st \<Longrightarrow> well_formed (run es st)"
  by (induction es arbitrary: st) (simp_all add: wf_handle)

lemma wf_init: "well_formed (init w h)"
  by (simp add: well_formed_def init_def)

lemma wf_reachable: "well_formed (run es (init w h))"
  by (simp add: wf_run wf_init)

text \<open>An object that has left the registry stays out: a launch registers a new object only.\<close>

lemma removed_handle: "removed p st \<Longrightarrow> removed p (handle e st)"
proof (cases e)
  case (MouseUp x)
  assume "removed p st"
  with MouseUp show ?thesis
    by (auto simp: removed_def mouseup_def Let_def split: option.splits)
next
  case Frame
  assume "removed p st"
  with Frame show ?thesis
    using set_particles_tick [of st]
    by (auto simp: removed_def animate_def Let_def length_heap_tick)
qed (simp_all add: removed_def mousedown_def mousemove_def resetParticle_def resize_def)

lemma removed_run: "removed p st \<Longrightarrow> removed p (run es st)"
  by (induction es arbitrary: st) (simp_all add: removed_handle)

lemma swallowed_round_removes:
  assumes "well_formed st" and "i < length (particles st)"
    and "swallowed (step_r st (particles st ! i))"
  shows "removed (particles st ! i) (forOf i st)"
proof -
  let ?ps = "particles st"
  let ?p = "?ps ! i"
  let ?gone = "take i ?ps @ drop (Suc i) ?ps"
  have d: "distinct ?ps" and h: "?p < length (heap st)"
    using assms by (auto simp: well_formed_def list_all_iff)
  have notin: "?p \<notin> set ?gone"
    using d assms(2) by (rule nth_notin_remove)
  then have "?p \<notin> set (butlast ?gone)"
    by (meson in_set_butlastD)
  with notin have "?p \<notin> set (particles (body ?p st))"
    using assms by (simp add: particles_body_nth Let_def)
  then have "?p \<notin> set (particles (forOf (Suc i) (body ?p st)))"
    using set_particles_forOf [of "Suc i" "body ?p st"] by blast
  moreover have "forOf i st = forOf (Suc i) (body ?p st)"
    using assms(2) by (subst forOf_unfold) simp
  ultimately show ?thesis
    using h by (simp add: removed_def length_heap_forOf length_heap_body)
qed

text \<open>
  C7. When a round of the loop steps the particle at index \<open>i\<close> of a well-formed registry and
  the step returns a distance below the swallow radius, the particle is not in the registry
  when that frame's loop has finished (\<open>tick st = forOf 0 st\<close>, and every round of a tick is
  the first round of some \<open>forOf i st\<close>), it is not in the registry after any further events
  (frames, launches, resets, resizes), and it is not among the particles drawn by any later
  frame.
\<close>

theorem swallowed_particle_never_returns:
  assumes "well_formed st" and "i < length (particles st)"
    and "swallowed (step_r st (particles st ! i))"
  shows "particles st ! i \<notin> set (particles (forOf i st)) \<and>
         particles st ! i \<notin> set (particles (run es (forOf i st))) \<and>
         particles st ! i \<notin> set (snd (animate (run es (forOf i st))))"
proof -
  have r: "removed (particles st ! i) (forOf i st)"
    using assms by (rule swallowed_round_removes)
  then have "removed (particles st ! i) (run es (forOf i st))"
    by (rule removed_run)
  then have "removed (particles st ! i) (run (es @ [Frame]) (forOf i st))"
     "removed (particles st ! i) (run es (forOf i st))"
    using r removed_run by blast+
  moreover have "run (es @ [Frame]) s = fst (animate (run es s))" for s
    by (induction es arbitrary: s) simp_all
  ultimately show ?thesis
    using r by (simp add: removed_def animate_def Let_def)
qed

section \<open>The two removal conditions\<close>

lemma not_both:
  assumes "centered st" and "swallowed (step_r st p)"
  shows "\<not> offscreen st (stepped st p)"
proof -
  let ?x = "p_x (stepped st p)" and ?y = "p_y (stepped st p)"
  let ?cx = "pt_x (center st)" and ?cy = "pt_y (center st)"
  have r: "sqrt ((?x - ?cx)\<^sup>2 + (?y - ?cy)\<^sup>2) < 32"
    using assms(2) by (simp add: swallowed_def BH_RADIUS_def step_r_distance)
  have "\<bar>?x - ?cx\<bar> < 32" "\<bar>?y - ?cy\<bar> < 32"
    using r real_sqrt_ge_abs1 [of "?x - ?cx" "?y - ?cy"] real_sqrt_ge_abs2 [of "?y - ?cy" "?x - ?cx"]
    by linarith+
  moreover have "?cx = innerWidth st / 2" "?cy = innerHeight st / 2"
    "0 \<le> innerWidth st" "0 \<le> innerHeight st"
    using assms(1) by (simp_all add: centered_def)
  ultimately show ?thesis
    by (simp add: offscreen_def) linarith
qed

text \<open>Every state reached from a loaded script has its center in the middle of the window.\<close>

lemma frame_forOf:
  "center (forOf i st) = center st \<and> innerWidth (forOf i st) = innerWidth st \<and>
   innerHeight (forOf i st) = innerHeight st"
proof (induction i st rule: forOf.induct)
  case (1 i st)
  show ?case
  proof (cases "i < length (particles st)")
    case True
    with 1 show ?thesis
      by (subst (1 2 3) forOf_unfold) (simp add: frame_body)
  next
    case False
    then show ?thesis
      by (subst (1 2 3) forOf_unfold) simp
  qed
qed

lemma centered_tick: "centered (tick st) = centered st"
  by (simp add: centered_def tick_def frame_forOf)

lemma centered_handle: "centered st \<Longrightarrow> proper_resize e \<Longrightarrow> centered (handle e st)"
proof (cases e)
  case (MouseUp x)
  assume "centered st"
  with MouseUp show ?thesis
    by (auto simp: centered_def mouseup_def Let_def split: option.splits)
next
  case Frame
  assume "centered st"
  with Frame show ?thesis
    by (simp add: animate_def Let_def centered_tick)
qed (simp_all add: centered_def mousedown_def mousemove_def resetParticle_def resize_def)

lemma centered_run: "centered st \<Longrightarrow> list_all proper_resize es \<Longrightarrow> centered (run es st)"
  by (induction es arbitrary: st) (simp_all add: centered_handle)

lemma centered_reachable:
  "0 \<le> w \<Longrightarrow> 0 \<le> h \<Longrightarrow> list_all proper_resize es \<Longrightarrow> centered (run es (init w h))"
  by (rule centered_run) (simp_all add: centered_def init_def)

lemma reachable_run: "reachable st \<Longrightarrow> list_all proper_resize es \<Longrightarrow> reachable (run es st)"
  by (induction es arbitrary: st) (simp_all add: reachable.event)

lemma reachable_well_formed: "reachable st \<Longrightarrow> well_formed st"
  by (induction rule: reachable.induct) (simp_all add: wf_init wf_handle wf_body)

lemma reachable_centered: "reachable st \<Longrightarrow> centered st"
proof (induction rule: reachable.induct)
  case (loaded w h)
  then show ?case by (simp add: centered_def init_def)
next
  case (event st e)
  then show ?case by (simp add: centered_handle)
next
  case (round st i)
  then show ?case by (simp add: centered_def frame_body)
qed

text \<open>
  C4. In every state the script can be in, and for every particle of the registry, the round
  that steps it evaluates the two conditions on the step's result; they never hold together
  (a particle within 32 of the center is inside the window, whose middle the center is); if
  one of them holds, the round removes exactly that particle (the registry loses the element
  at its index and nothing else); if none holds the registry is unchanged.
\<close>

theorem removal_happens_once:
  assumes "reachable st" and "i < length (particles st)"
  shows "(let ps = particles st; p = ps ! i; r = step_r st p; q = stepped st p
          in \<not> (swallowed r \<and> offscreen st q) \<and>
             particles (body p st) =
               (if swallowed r \<or> offscreen st q then take i ps @ drop (Suc i) ps else ps))"
proof -
  have w: "well_formed st" and c: "centered st"
    using assms(1) by (simp_all add: reachable_well_formed reachable_centered)
  show ?thesis
    using w c assms(2) not_both [of st "particles st ! i"]
    by (auto simp add: particles_body_nth Let_def)
qed

section \<open>The example states evaluated\<close>

lemma stepVerlet_center_rest:
  "stepVerlet \<lparr>pt_x = a, pt_y = b\<rparr> (at_rest a b) h = (at_rest a b, 0)"
  by (simp add: stepVerlet_def acceleration_def at_rest_def)

lemma step_r_center_rest:
  "center st = \<lparr>pt_x = a, pt_y = b\<rparr> \<Longrightarrow> heap st ! p = at_rest a b \<Longrightarrow> step_r st p = 0"
  by (simp add: step_r_def stepVerlet_center_rest)

lemma stepped_center_rest:
  "center st = \<lparr>pt_x = a, pt_y = b\<rparr> \<Longrightarrow> heap st ! p = at_rest a b \<Longrightarrow>
   stepped st p = (at_rest a b)\<lparr>p_trace := [\<lparr>pt_x = a, pt_y = b\<rparr>]\<rparr>"
  by (simp add: stepped_def stepVerlet_center_rest) (simp add: record_trace_def at_rest_def)

lemma forOf_done: "length (particles st) \<le> i \<Longrightarrow> forOf i st = st"
  by (subst forOf_unfold) simp

lemma forOf_round:
  "i < length (particles st) \<Longrightarrow> forOf i st = forOf (Suc i) (body (particles st ! i) st)"
  by (subst forOf_unfold) simp

lemma two_particles_simps:
  "center two_particles = \<lparr>pt_x = 400, pt_y = 300\<rparr>" "innerWidth two_particles = 800"
  "innerHeight two_particles = 600" "particles two_particles = [0, 1]"
  "heap two_particles = [at_rest 400 300, at_rest 100 100]"
  by (simp_all add: two_particles_def init_def mousedown_def mouseup_def Let_def at_rest_def)

lemma wf_two_particles: "well_formed two_particles"
  by (simp add: well_formed_def two_particles_simps)

lemma centered_two_particles: "centered two_particles"
  by (simp add: centered_def two_particles_simps)

lemma two_particles_round0:
  "step_r two_particles 0 = 0"
  "stepped two_particles 0 = (at_rest 400 300)\<lparr>p_trace := [\<lparr>pt_x = 400, pt_y = 300\<rparr>]\<rparr>"
  by (simp_all add: step_r_center_rest [where a = 400 and b = 300]
      stepped_center_rest [where a = 400 and b = 300] two_particles_simps)

lemma body_two_particles:
  "body 0 two_particles =
     two_particles\<lparr>heap := [(at_rest 400 300)\<lparr>p_trace := [\<lparr>pt_x = 400, pt_y = 300\<rparr>]\<rparr>, at_rest 100 100],
                   particles := [1]\<rparr>"
  by (simp add: body_unfold Let_def two_particles_round0 two_particles_simps swallowed_def
      BH_RADIUS_def offscreen_def at_rest_def splice1_def)

lemma tick_two_particles:
  "tick two_particles =
     two_particles\<lparr>heap := [(at_rest 400 300)\<lparr>p_trace := [\<lparr>pt_x = 400, pt_y = 300\<rparr>]\<rparr>, at_rest 100 100],
                   particles := [1]\<rparr>"
proof -
  have "tick two_particles = forOf (Suc 0) (body 0 two_particles)"
    by (simp add: tick_def two_particles_simps forOf_round)
  also have "\<dots> = body 0 two_particles"
    by (rule forOf_done) (simp add: body_two_particles)
  finally show ?thesis
    by (simp add: body_two_particles)
qed

text \<open>
  C4 at \<open>two_particles\<close>: the first particle is swallowed, not off screen, and the round
  leaves the other one.
\<close>

theorem removal_happens_once_witness:
  "reachable two_particles \<and> 0 < length (particles two_particles) \<and>
   swallowed (step_r two_particles 0) \<and> \<not> offscreen two_particles (stepped two_particles 0) \<and>
   particles (body 0 two_particles) = [1]"
proof -
  have r: "reachable two_particles"
    unfolding two_particles_def by (rule reachable_run) (simp_all add: reachable.loaded)
  show ?thesis
    using removal_happens_once [of two_particles 0] r
    by (simp add: Let_def two_particles_simps two_particles_round0 swallowed_def BH_RADIUS_def)
qed

text \<open>
  C7 at \<open>two_particles\<close>, followed by a frame, a launch and another frame.
\<close>

theorem swallowed_particle_never_returns_witness:
  "well_formed two_particles \<and> 0 < length (particles two_particles) \<and>
   swallowed (step_r two_particles 0) \<and>
   0 \<notin> set (particles (tick two_particles)) \<and>
   0 \<notin> set (particles (run [Frame, MouseDown \<lparr>pt_x = 400, pt_y = 300\<rparr>,
                               MouseUp \<lparr>pt_x = 400, pt_y = 300\<rparr>, Frame] (tick two_particles))) \<and>
   0 \<notin> set (snd (animate (run [Frame, MouseDown \<lparr>pt_x = 400, pt_y = 300\<rparr>,
                               MouseUp \<lparr>pt_x = 400, pt_y = 300\<rparr>, Frame] (tick two_particles))))"
proof -
  have "swallowed (step_r two_particles 0)"
    by (simp add: two_particles_round0 swallowed_def BH_RADIUS_def)
  moreover have "tick two_particles = forOf 0 two_particles"
    by (simp add: tick_def two_particles_simps)
  ultimately show ?thesis
    using swallowed_particle_never_returns [of two_particles 0
        "[Frame, MouseDown \<lparr>pt_x = 400, pt_y = 300\<rparr>, MouseUp \<lparr>pt_x = 400, pt_y = 300\<rparr>, Frame]"]
      wf_two_particles
    by (simp add: two_particles_simps)
qed

lemma p_trace_stepped: "p_trace (stepped st p) \<noteq> []"
  by (simp add: stepped_def p_trace_record_trace)

text \<open>
  C5 fails on the code. In \<open>two_particles\<close> the first particle sits at the center and is
  swallowed by the first round; the array shrinks, the iterator's index moves on to 1, and the
  loop ends. The second particle is still registered after the tick and was never stepped:
  its object is unchanged and its trace is empty, although a step would have changed it.
\<close>

theorem removal_skips_the_next_particle:
  "particles two_particles = [0, 1] \<and>
   particles (tick two_particles) = [1] \<and>
   heap (tick two_particles) ! 1 = heap two_particles ! 1 \<and>
   p_trace (heap (tick two_particles) ! 1) = [] \<and>
   stepped two_particles 1 \<noteq> heap two_particles ! 1"
proof -
  have "p_trace (heap two_particles ! 1) = []"
    by (simp add: two_particles_simps at_rest_def)
  then have "stepped two_particles 1 \<noteq> heap two_particles ! 1"
    using p_trace_stepped [of two_particles 1] by metis
  then show ?thesis
    by (simp add: tick_two_particles two_particles_simps) (simp add: at_rest_def)
qed

section \<open>A launch inside the swallow radius\<close>

lemma stepVerlet_position:
  "p_x (fst (stepVerlet c p h)) = p_x p + (p_vx p * h + 0.5 * a_ax (acceleration c p) * h * h)"
  "p_y (fst (stepVerlet c p h)) = p_y p + (p_vy p * h + 0.5 * a_ay (acceleration c p) * h * h)"
  by (simp_all add: stepVerlet_def Let_def)

lemma sqrt_100: "sqrt 100 = 10"
  using real_sqrt_abs [of 10] by simp

lemma acceleration_at_10:
  assumes "(p_x p - pt_x c)\<^sup>2 + (p_y p - pt_y c)\<^sup>2 = 10\<^sup>2"
  shows "acceleration c p =
     \<lparr>a_ax = - 100 * (p_x p - pt_x c), a_ay = - 100 * (p_y p - pt_y c), a_r = 10\<rparr>"
proof -
  have "(p_x p - pt_x c) * (p_x p - pt_x c) + (p_y p - pt_y c) * (p_y p - pt_y c) = 100"
    using assms by (simp add: power2_eq_square)
  then have r: "sqrt ((p_x p - pt_x c) * (p_x p - pt_x c) + (p_y p - pt_y c) * (p_y p - pt_y c)) = 10"
    by (simp add: sqrt_100)
  show ?thesis
    unfolding acceleration_def Let_def r by (simp add: G_def M_def)
qed

lemma cauchy_schwarz2:
  fixes a b c d :: real
  shows "(a * c + b * d)\<^sup>2 \<le> (a\<^sup>2 + b\<^sup>2) * (c\<^sup>2 + d\<^sup>2)"
proof -
  have "(a\<^sup>2 + b\<^sup>2) * (c\<^sup>2 + d\<^sup>2) - (a * c + b * d)\<^sup>2 = (a * d - b * c)\<^sup>2"
    by (simp add: power2_eq_square algebra_simps)
  moreover have "0 \<le> (a * d - b * c)\<^sup>2"
    by simp
  ultimately show ?thesis
    by linarith
qed

lemma step_from_10:
  fixes dx dy vx vy :: real
  assumes d: "dx\<^sup>2 + dy\<^sup>2 = 10\<^sup>2" and v: "vx\<^sup>2 + vy\<^sup>2 < 270\<^sup>2"
  shows "sqrt ((dx / 2 + vx / 10)\<^sup>2 + (dy / 2 + vy / 10)\<^sup>2) < 32"
proof -
  have "(dx * vx + dy * vy)\<^sup>2 \<le> (dx\<^sup>2 + dy\<^sup>2) * (vx\<^sup>2 + vy\<^sup>2)"
    by (rule cauchy_schwarz2)
  also have "\<dots> < 2700\<^sup>2"
    using d v by simp
  finally have "(dx * vx + dy * vy)\<^sup>2 < 2700\<^sup>2" .
  then have dot: "dx * vx + dy * vy < 2700"
    by (rule power2_less_imp_less) simp
  have "(dx / 2 + vx / 10)\<^sup>2 + (dy / 2 + vy / 10)\<^sup>2 =
      (dx\<^sup>2 + dy\<^sup>2) / 4 + (dx * vx + dy * vy) / 10 + (vx\<^sup>2 + vy\<^sup>2) / 100"
    by (simp add: power2_eq_square field_simps)
  also have "\<dots> < 32\<^sup>2"
  proof -
    have *: "D / 4 + P / 10 + V / 100 < 32\<^sup>2" if "D = 100" "P < 2700" "V < 72900" for D P V :: real
      using that by simp
    show ?thesis
      by (rule *) (use d v dot in simp_all)
  qed
  finally have "sqrt ((dx / 2 + vx / 10)\<^sup>2 + (dy / 2 + vy / 10)\<^sup>2) < sqrt (32\<^sup>2)"
    by (simp only: real_sqrt_less_iff)
  then show ?thesis
    by simp
qed

lemma step_r_from_10:
  assumes "(p_x (heap st ! p) - pt_x (center st))\<^sup>2 + (p_y (heap st ! p) - pt_y (center st))\<^sup>2 = 10\<^sup>2"
    and "(p_vx (heap st ! p))\<^sup>2 + (p_vy (heap st ! p))\<^sup>2 < 270\<^sup>2"
  shows "swallowed (step_r st p)"
proof -
  let ?q = "heap st ! p" and ?c = "center st"
  let ?dx = "p_x ?q - pt_x ?c" and ?dy = "p_y ?q - pt_y ?c"
  have x: "p_x (fst (stepVerlet ?c ?q dt)) - pt_x ?c = ?dx / 2 + p_vx ?q / 10"
    and y: "p_y (fst (stepVerlet ?c ?q dt)) - pt_y ?c = ?dy / 2 + p_vy ?q / 10"
    by (simp_all add: stepVerlet_position acceleration_at_10 [OF assms(1)] dt_def field_simps)
  have "step_r st p = sqrt ((?dx / 2 + p_vx ?q / 10)\<^sup>2 + (?dy / 2 + p_vy ?q / 10)\<^sup>2)"
    unfolding step_r_def snd_stepVerlet x y ..
  then show ?thesis
    using step_from_10 [OF assms] by (simp add: swallowed_def BH_RADIUS_def)
qed

text \<open>
  C8, as amended. A particle at distance 10 from the center whose speed is below 270 is, in
  the round that steps it, at most at distance \<open>5 + 0.1 * speed < 32\<close> after the step, so
  that round removes it and it is not in the registry when the frame's loop has finished.
\<close>

theorem spawned_inside_is_swallowed:
  assumes "well_formed st" and "i < length (particles st)"
    and "(p_x (heap st ! (particles st ! i)) - pt_x (center st))\<^sup>2 +
         (p_y (heap st ! (particles st ! i)) - pt_y (center st))\<^sup>2 = 10\<^sup>2"
    and "(p_vx (heap st ! (particles st ! i)))\<^sup>2 + (p_vy (heap st ! (particles st ! i)))\<^sup>2 < 270\<^sup>2"
  shows "swallowed (step_r st (particles st ! i)) \<and>
         particles st ! i \<notin> set (particles (forOf i st))"
proof -
  have s: "swallowed (step_r st (particles st ! i))"
    using assms(3,4) by (rule step_r_from_10)
  with assms(1,2) have "removed (particles st ! i) (forOf i st)"
    by (rule swallowed_round_removes)
  with s show ?thesis
    by (simp add: removed_def)
qed

lemma slow_launch_simps:
  "center slow_launch = \<lparr>pt_x = 400, pt_y = 300\<rparr>" "particles slow_launch = [0]"
  "heap slow_launch =
     [\<lparr>p_x = 410, p_y = 300, p_vx = 1, p_vy = 0, p_ax = 0, p_ay = 0, p_trace = []\<rparr>]"
  by (simp_all add: slow_launch_def init_def mousedown_def mouseup_def Let_def)

lemma fast_launch_simps:
  "center fast_launch = \<lparr>pt_x = 8000, pt_y = 300\<rparr>" "particles fast_launch = [0]"
  "innerWidth fast_launch = 16000" "innerHeight fast_launch = 600"
  "heap fast_launch =
     [\<lparr>p_x = 8010, p_y = 300, p_vx = 370, p_vy = 0, p_ax = 0, p_ay = 0, p_trace = []\<rparr>]"
  by (simp_all add: fast_launch_def init_def mousedown_def mouseup_def Let_def)

text \<open>
  The amended C8 at \<open>slow_launch\<close>: the particle is gone after the next tick.
\<close>

theorem spawned_inside_is_swallowed_witness:
  "well_formed slow_launch \<and> 0 < length (particles slow_launch) \<and>
   (p_x (heap slow_launch ! 0) - pt_x (center slow_launch))\<^sup>2 +
   (p_y (heap slow_launch ! 0) - pt_y (center slow_launch))\<^sup>2 = 10\<^sup>2 \<and>
   (p_vx (heap slow_launch ! 0))\<^sup>2 + (p_vy (heap slow_launch ! 0))\<^sup>2 < 270\<^sup>2 \<and>
   swallowed (step_r slow_launch 0) \<and> 0 \<notin> set (particles (tick slow_launch))"
proof -
  have w: "well_formed slow_launch"
    unfolding slow_launch_def by (rule wf_reachable)
  show ?thesis
    using spawned_inside_is_swallowed [of slow_launch 0] w
    by (simp add: slow_launch_simps tick_def)
qed

lemma sqrt_1764: "sqrt 1764 = 42"
  using real_sqrt_abs [of 42] by simp

lemma fast_launch_round:
  "step_r fast_launch 0 = 42" "p_x (stepped fast_launch 0) = 8042" "p_y (stepped fast_launch 0) = 300"
proof -
  let ?q = "heap fast_launch ! 0" and ?c = "center fast_launch"
  have d: "(p_x ?q - pt_x ?c)\<^sup>2 + (p_y ?q - pt_y ?c)\<^sup>2 = 10\<^sup>2"
    by (simp add: fast_launch_simps)
  show x: "p_x (stepped fast_launch 0) = 8042" and y: "p_y (stepped fast_launch 0) = 300"
    by (simp_all add: stepped_def record_trace_frame stepVerlet_position
        acceleration_at_10 [OF d] dt_def) (simp_all add: fast_launch_simps)
  show "step_r fast_launch 0 = 42"
    unfolding step_r_distance x y by (simp add: fast_launch_simps sqrt_1764)
qed

text \<open>
  C8 as stated fails: the particle of \<open>fast_launch\<close> starts at distance 10 with velocity
  \<open>(370, 0)\<close>, is at distance 42 after its step, and is still registered after the tick.
\<close>

theorem fast_particle_escapes:
  "(p_x (heap fast_launch ! 0) - pt_x (center fast_launch))\<^sup>2 +
   (p_y (heap fast_launch ! 0) - pt_y (center fast_launch))\<^sup>2 = 10\<^sup>2 \<and>
   BH_RADIUS = 32 \<and> particles fast_launch = [0] \<and> particles (tick fast_launch) = [0]"
proof -
  have w: "well_formed fast_launch"
    unfolding fast_launch_def by (rule wf_reachable)
  have "particles (body 0 fast_launch) = [0]"
    using particles_body_nth [of fast_launch 0] w
    by (simp add: fast_launch_simps Let_def fast_launch_round swallowed_def BH_RADIUS_def
        offscreen_def)
  then have "particles (forOf (Suc 0) (body 0 fast_launch)) = [0]"
    by (simp add: forOf_done)
  then have "particles (tick fast_launch) = [0]"
    by (simp add: tick_def fast_launch_simps forOf_round)
  then show ?thesis
    by (simp add: fast_launch_simps BH_RADIUS_def)
qed

section \<open>Trace entries\<close>

lemma p_trace_stepped_eq:
  "p_trace (stepped st p) =
     drop (if 1200 \<le> length (p_trace (heap st ! p)) then 1 else 0) (p_trace (heap st ! p)) @
     [\<lparr>pt_x = p_x (stepped st p), pt_y = p_y (stepped st p)\<rparr>]"
  by (simp add: stepped_def p_trace_record_trace p_trace_stepVerlet record_trace_frame)

text \<open>
  C10. The entry pushed on a trace is a point built from the two numbers read at that
  moment. A later round of the same particle changes its position and leaves every entry
  pushed before as it was: the new trace is the old one, without its first entry when it
  held 1200 already, followed by the new position. The integrator alone does not touch the
  trace, and a round changes no other object.
\<close>

theorem trace_entries_are_copies:
  assumes "p < length (heap st)"
  shows "p_trace (heap (body p st) ! p) =
           drop (if 1200 \<le> length (p_trace (heap st ! p)) then 1 else 0) (p_trace (heap st ! p)) @
           [\<lparr>pt_x = p_x (heap (body p st) ! p), pt_y = p_y (heap (body p st) ! p)\<rparr>] \<and>
         (\<forall>q. q \<noteq> p \<longrightarrow> heap (body p st) ! q = heap st ! q) \<and>
         p_trace (fst (stepVerlet c a h)) = p_trace a"
proof -
  have "heap (body p st) ! p = stepped st p"
    using assms by (simp add: heap_body)
  then show ?thesis
    using p_trace_stepped_eq [of st p] by (simp add: heap_body p_trace_stepVerlet)
qed

text \<open>
  C10 at the second round of the particle of \<open>fast_launch\<close>: the entry \<open>(8042, 300)\<close> of
  the first round is still the first entry.
\<close>

theorem trace_entries_are_copies_witness:
  "0 < length (heap (body 0 fast_launch)) \<and>
   heap fast_launch ! 0 = \<lparr>p_x = 8010, p_y = 300, p_vx = 370, p_vy = 0, p_ax = 0, p_ay = 0, p_trace = []\<rparr> \<and>
   p_trace (heap (body 0 fast_launch) ! 0) = [\<lparr>pt_x = 8042, pt_y = 300\<rparr>] \<and>
   p_trace (heap (body 0 (body 0 fast_launch)) ! 0) =
     [\<lparr>pt_x = 8042, pt_y = 300\<rparr>,
      \<lparr>pt_x = p_x (heap (body 0 (body 0 fast_launch)) ! 0),
       pt_y = p_y (heap (body 0 (body 0 fast_launch)) ! 0)\<rparr>]"
proof -
  have l: "0 < length (heap (body 0 fast_launch))"
    by (simp add: length_heap_body fast_launch_simps)
  have "heap (body 0 fast_launch) ! 0 = stepped fast_launch 0"
    by (simp add: heap_body fast_launch_simps)
  then have t: "p_trace (heap (body 0 fast_launch) ! 0) = [\<lparr>pt_x = 8042, pt_y = 300\<rparr>]"
    by (simp add: p_trace_stepped_eq fast_launch_round) (simp add: fast_launch_simps)
  show ?thesis
    using trace_entries_are_copies [OF l] l t by (simp add: fast_launch_simps)
qed

section \<open>A particle that the loop skips twice\<close>

lemma acceleration_axis:
  assumes "p_y p = pt_y c" and "pt_x c < p_x p"
  shows "acceleration c p =
     \<lparr>a_ax = - (G * M / ((p_x p - pt_x c) * (p_x p - pt_x c))), a_ay = 0, a_r = p_x p - pt_x c\<rparr>"
proof -
  define dx where "dx = p_x p - pt_x c"
  have pos: "0 < dx"
    using assms(2) by (simp add: dx_def)
  then have r: "sqrt (dx * dx + (p_y p - pt_y c) * (p_y p - pt_y c)) = dx"
    using assms(1) by simp
  show ?thesis
    unfolding acceleration_def Let_def dx_def [symmetric] r using pos assms(1) by simp
qed

lemma acceleration_field_at: "acceleration c p = field_at c (p_x p) (p_y p)"
  unfolding field_at_def by (rule acceleration_position) simp_all

lemma stepVerlet_velocity:
  "p_vx (fst (stepVerlet c p h)) =
     p_vx p + 0.5 * (a_ax (acceleration c p) + a_ax (acceleration c (fst (stepVerlet c p h)))) * h"
  "p_vy (fst (stepVerlet c p h)) =
     p_vy p + 0.5 * (a_ay (acceleration c p) + a_ay (acceleration c (fst (stepVerlet c p h)))) * h"
  by (simp_all add: stepVerlet_def Let_def acceleration_field_at)

text \<open>A step of a particle on the horizontal line through the center, right of the center.\<close>

lemma stepVerlet_axis:
  assumes "p_y p = pt_y c" and "p_vy p = 0" and "pt_x c < p_x p"
    and "a0 = - (G * M / ((p_x p - pt_x c) * (p_x p - pt_x c)))"
    and "x1 = p_x p + (p_vx p * h + 0.5 * a0 * h * h)"
    and "pt_x c < x1"
  shows "p_x (fst (stepVerlet c p h)) = x1"
    and "p_y (fst (stepVerlet c p h)) = p_y p"
    and "p_vx (fst (stepVerlet c p h)) =
           p_vx p + 0.5 * (a0 + - (G * M / ((x1 - pt_x c) * (x1 - pt_x c)))) * h"
    and "p_vy (fst (stepVerlet c p h)) = 0"
    and "snd (stepVerlet c p h) = x1 - pt_x c"
proof -
  have a: "acceleration c p = \<lparr>a_ax = a0, a_ay = 0, a_r = p_x p - pt_x c\<rparr>"
    using acceleration_axis [OF assms(1,3)] assms(4) by simp
  show x: "p_x (fst (stepVerlet c p h)) = x1" and y: "p_y (fst (stepVerlet c p h)) = p_y p"
    using assms(2,5) by (simp_all add: stepVerlet_position a)
  have b: "acceleration c (fst (stepVerlet c p h)) =
      \<lparr>a_ax = - (G * M / ((x1 - pt_x c) * (x1 - pt_x c))), a_ay = 0, a_r = x1 - pt_x c\<rparr>"
    using acceleration_axis [of "fst (stepVerlet c p h)" c] assms(1,6) by (simp add: x y)
  show "p_vx (fst (stepVerlet c p h)) =
           p_vx p + 0.5 * (a0 + - (G * M / ((x1 - pt_x c) * (x1 - pt_x c)))) * h"
    "p_vy (fst (stepVerlet c p h)) = 0"
    using assms(2) by (simp_all add: stepVerlet_velocity a b)
  show "snd (stepVerlet c p h) = x1 - pt_x c"
    using assms(1,6) by (simp add: snd_stepVerlet x y)
qed

lemma pull_bounds:
  fixes d :: real
  assumes "1000 \<le> d"
  shows "- (1 / 10) \<le> - (G * M / (d * d))" and "- (G * M / (d * d)) \<le> 0"
proof -
  have "1000 * 1000 \<le> d * d"
    using assms by (intro mult_mono) simp_all
  then have dd: "1000000 \<le> d * d"
    by simp
  then have "100000 / (d * d) \<le> 100000 / 1000000"
    by (intro divide_left_mono) simp_all
  then show "- (1 / 10) \<le> - (G * M / (d * d))"
    by (simp add: G_def M_def)
  show "- (G * M / (d * d)) \<le> 0"
    using dd by (simp add: G_def M_def)
qed

lemma fall_arith:
  fixes x v m a0 a1 x1 :: real
  assumes m: "0 \<le> m" "m + 1 \<le> 1200"
    and x: "3900 - m\<^sup>2 / 2000 \<le> x" "x \<le> 3900"
    and v: "- (m / 100) \<le> v" "v \<le> 0"
    and a0: "- (1 / 10) \<le> a0" "a0 \<le> 0"
    and a1: "- (1 / 10) \<le> a1" "a1 \<le> 0"
    and x1: "x1 = x + (v * dt + 0.5 * a0 * dt * dt)"
  shows "3900 - (m + 1)\<^sup>2 / 2000 \<le> x1" and "x1 \<le> 3900" and "3000 \<le> x1"
    and "- ((m + 1) / 100) \<le> v + 0.5 * (a0 + a1) * dt" and "v + 0.5 * (a0 + a1) * dt \<le> 0"
proof -
  have e: "x1 = x + v / 10 + a0 / 200"
    by (simp add: x1 dt_def)
  have sq: "(m + 1)\<^sup>2 = m\<^sup>2 + 2 * m + 1"
    by (simp add: power2_eq_square algebra_simps)
  show lo: "3900 - (m + 1)\<^sup>2 / 2000 \<le> x1"
    unfolding e sq using x v a0 by (simp add: field_simps)
  show "x1 \<le> 3900"
    unfolding e using x v a0 by simp
  have "(m + 1)\<^sup>2 \<le> 1200\<^sup>2"
    using m by (intro power_mono) simp_all
  then show "3000 \<le> x1"
    using lo by simp
  show "- ((m + 1) / 100) \<le> v + 0.5 * (a0 + a1) * dt"
    using v a0 a1 by (simp add: dt_def field_simps)
  show "v + 0.5 * (a0 + a1) * dt \<le> 0"
    using v a0 a1 by (simp add: dt_def field_simps)
qed

lemma falling_step:
  assumes f: "falling n q" and n: "n < 1200" and c: "c = \<lparr>pt_x = 2000, pt_y = 300\<rparr>"
  shows "falling (Suc n) (record_trace (fst (stepVerlet c q dt)))"
    and "1000 \<le> snd (stepVerlet c q dt)"
    and "3000 \<le> p_x (fst (stepVerlet c q dt))"
proof -
  define a0 where "a0 = - (G * M / ((p_x q - pt_x c) * (p_x q - pt_x c)))"
  define x1 where "x1 = p_x q + (p_vx q * dt + 0.5 * a0 * dt * dt)"
  define a1 where "a1 = - (G * M / ((x1 - pt_x c) * (x1 - pt_x c)))"
  have q: "p_y q = 300" "p_vy q = 0" "3900 - (real n)\<^sup>2 / 2000 \<le> p_x q" "p_x q \<le> 3900"
    "- (real n / 100) \<le> p_vx q" "p_vx q \<le> 0" "length (p_trace q) = n"
    using f by (simp_all add: falling_def)
  have m: "0 \<le> real n" "real n + 1 \<le> 1200"
    using n by simp_all
  have "(real n)\<^sup>2 \<le> 1200\<^sup>2"
    using m by (intro power_mono) simp_all
  then have far: "1000 \<le> p_x q - pt_x c"
    using q(3) by (simp add: c)
  have b0: "- (1 / 10) \<le> a0" "a0 \<le> 0"
    unfolding a0_def using far by (rule pull_bounds)+
  have "3000 \<le> x1"
    using fall_arith(3) [OF m q(3,4,5,6) b0 b0 x1_def] .
  then have far1: "1000 \<le> x1 - pt_x c"
    by (simp add: c)
  have b1: "- (1 / 10) \<le> a1" "a1 \<le> 0"
    unfolding a1_def using far1 by (rule pull_bounds)+
  note ar = fall_arith [OF m q(3,4,5,6) b0 b1 x1_def]
  have ax: "p_y q = pt_y c" "pt_x c < p_x q" "pt_x c < x1"
    using far far1 q(1) by (simp_all add: c)
  note st = stepVerlet_axis [OF ax(1) q(2) ax(2) a0_def x1_def ax(3), folded a1_def]
  have len: "length (p_trace (record_trace (fst (stepVerlet c q dt)))) = Suc n"
    using n q(7) by (simp add: record_trace_def Let_def p_trace_stepVerlet)
  have r: "p_x (record_trace z) = p_x z" "p_y (record_trace z) = p_y z"
    "p_vx (record_trace z) = p_vx z" "p_vy (record_trace z) = p_vy z" for z
    by (simp_all add: record_trace_def Let_def)
  have s: "real (Suc n) = real n + 1"
    by simp
  show "falling (Suc n) (record_trace (fst (stepVerlet c q dt)))"
    unfolding falling_def r st s using ar q(1) len by simp
  show "1000 \<le> snd (stepVerlet c q dt)"
    unfolding st using far1 .
  show "3000 \<le> p_x (fst (stepVerlet c q dt))"
    unfolding st using ar(3) .
qed

lemma centered_body: "centered (body p st) = centered st"
  by (simp add: centered_def frame_body)

lemma heap_body_nth:
  "p < length (heap st) \<Longrightarrow> heap (body p st) ! q = (if q = p then stepped st p else heap st ! q)"
  by (simp add: heap_body)

lemma round_keeps:
  assumes "well_formed st" and "i < length (particles st)"
    and "\<not> swallowed (step_r st (particles st ! i))"
    and "\<not> offscreen st (stepped st (particles st ! i))"
  shows "particles (body (particles st ! i) st) = particles st"
  using assms by (simp add: particles_body_nth Let_def)

lemma round_swallows:
  assumes "well_formed st" and "i < length (particles st)" and "centered st"
    and "swallowed (step_r st (particles st ! i))"
  shows "particles (body (particles st ! i) st) = take i (particles st) @ drop (Suc i) (particles st)"
  using assms not_both [of st "particles st ! i"] by (simp add: particles_body_nth Let_def)

lemma solo_tick:
  assumes s: "solo n st" and n: "n < 1200"
  shows "solo (Suc n) (tick st)"
proof -
  have st: "center st = \<lparr>pt_x = 2000, pt_y = 300\<rparr>" "innerWidth st = 4000" "innerHeight st = 600"
    "particles st = [2]" "length (heap st) = 3" "falling n (heap st ! 2)"
    using s by (simp_all add: solo_def)
  have w: "well_formed st"
    by (simp add: well_formed_def st)
  have f: "falling (Suc n) (stepped st 2)" and r: "1000 \<le> step_r st 2"
    and x: "3000 \<le> p_x (stepped st 2)"
    unfolding stepped_def step_r_def record_trace_frame
    using falling_step [OF st(6) n st(1)] by simp_all
  have keep: "particles (body 2 st) = [2]"
    using round_keeps [of st 0] w r f x
    by (simp add: st swallowed_def BH_RADIUS_def offscreen_def falling_def)
  have "tick st = forOf (Suc 0) (body 2 st)"
    by (simp add: tick_def st forOf_round)
  also have "\<dots> = body 2 st"
    by (rule forOf_done) (simp add: keep)
  finally have t: "tick st = body 2 st" .
  show ?thesis
    unfolding t solo_def using f keep by (simp add: frame_body st length_heap_body heap_body_nth)
qed

lemma solo_ticks: "solo n st \<Longrightarrow> n + k \<le> 1200 \<Longrightarrow> solo (n + k) ((tick ^^ k) st)"
proof (induction k)
  case 0
  then show ?case by simp
next
  case (Suc k)
  then have "solo (n + k) ((tick ^^ k) st)" and "n + k < 1200"
    by simp_all
  then have "solo (Suc (n + k)) (tick ((tick ^^ k) st))"
    by (rule solo_tick)
  then show ?case
    by simp
qed

lemma three_particles_simps:
  "center three_particles = \<lparr>pt_x = 2000, pt_y = 300\<rparr>" "innerWidth three_particles = 4000"
  "innerHeight three_particles = 600" "particles three_particles = [0, 1, 2]"
  "heap three_particles =
     [\<lparr>p_x = 2040, p_y = 300, p_vx = - 50, p_vy = 0, p_ax = 0, p_ay = 0, p_trace = []\<rparr>,
      at_rest 2000 300, at_rest 3900 300]"
  by (simp_all add: three_particles_def init_def mousedown_def mouseup_def Let_def at_rest_def)

lemma wf_three_particles: "well_formed three_particles"
  unfolding three_particles_def by (rule wf_reachable)

lemma centered_three_particles: "centered three_particles"
  by (simp add: centered_def three_particles_simps)

text \<open>First tick, first round: the first particle moves from distance 40 to 34.6875.\<close>

lemma three_round_1:
  "p_x (stepped three_particles 0) = 2034 + 11 / 16"
  "p_y (stepped three_particles 0) = 300"
  "p_vy (stepped three_particles 0) = 0"
  "p_vx (stepped three_particles 0) = - 50 + 0.5 * (- (125 / 2) + - (1024000 / 12321)) * dt"
  "step_r three_particles 0 = 34 + 11 / 16"
proof -
  let ?c = "center three_particles" and ?q = "heap three_particles ! 0"
  have a: "p_y ?q = pt_y ?c" "p_vy ?q = 0" "pt_x ?c < p_x ?q"
    by (simp_all add: three_particles_simps)
  have a0: "- (125 / 2) = - (G * M / ((p_x ?q - pt_x ?c) * (p_x ?q - pt_x ?c)))"
    by (simp add: three_particles_simps G_def M_def)
  have x1: "2034 + 11 / 16 = p_x ?q + (p_vx ?q * dt + 0.5 * - (125 / 2) * dt * dt)"
    by (simp add: three_particles_simps dt_def)
  have c: "pt_x ?c < 2034 + 11 / 16"
    by (simp add: three_particles_simps)
  note s = stepVerlet_axis [OF a a0 x1 c]
  show "p_x (stepped three_particles 0) = 2034 + 11 / 16"
    "p_y (stepped three_particles 0) = 300"
    "p_vy (stepped three_particles 0) = 0"
    "step_r three_particles 0 = 34 + 11 / 16"
    unfolding stepped_def step_r_def record_trace_frame s
    by (simp_all add: three_particles_simps)
  show "p_vx (stepped three_particles 0) = - 50 + 0.5 * (- (125 / 2) + - (1024000 / 12321)) * dt"
    unfolding stepped_def record_trace_frame s
    by (simp add: three_particles_simps G_def M_def)
qed

lemma first_tick:
  "particles (tick three_particles) = [0, 2]"
  "heap (tick three_particles) ! 0 = stepped three_particles 0"
  "heap (tick three_particles) ! 2 = at_rest 3900 300"
  "length (heap (tick three_particles)) = 3"
  "center (tick three_particles) = \<lparr>pt_x = 2000, pt_y = 300\<rparr>"
  "innerWidth (tick three_particles) = 4000" "innerHeight (tick three_particles) = 600"
  "well_formed (tick three_particles)"
proof -
  define st1 where "st1 = body 0 three_particles"
  define st2 where "st2 = body 1 st1"
  have p1: "particles st1 = [0, 1, 2]"
    unfolding st1_def
    using round_keeps [of three_particles 0] wf_three_particles
    by (simp add: three_particles_simps three_round_1 swallowed_def BH_RADIUS_def offscreen_def)
  have h1: "heap st1 ! 1 = at_rest 2000 300" "heap st1 ! 2 = at_rest 3900 300"
    "heap st1 ! 0 = stepped three_particles 0" "length (heap st1) = 3"
    by (simp_all add: st1_def heap_body_nth length_heap_body three_particles_simps)
  have f1: "center st1 = \<lparr>pt_x = 2000, pt_y = 300\<rparr>" "innerWidth st1 = 4000" "innerHeight st1 = 600"
    by (simp_all add: st1_def frame_body three_particles_simps)
  have w1: "well_formed st1" and c1: "centered st1"
    by (simp_all add: st1_def wf_body wf_three_particles centered_body centered_three_particles)
  have "step_r st1 1 = 0"
    using f1(1) h1(1) by (rule step_r_center_rest)
  then have p2: "particles st2 = [0, 2]"
    unfolding st2_def using round_swallows [of st1 1] w1 c1
    by (simp add: p1 swallowed_def BH_RADIUS_def)
  have h2: "heap st2 ! 0 = stepped three_particles 0" "heap st2 ! 2 = at_rest 3900 300"
    "length (heap st2) = 3" "center st2 = \<lparr>pt_x = 2000, pt_y = 300\<rparr>"
    "innerWidth st2 = 4000" "innerHeight st2 = 600" "well_formed st2"
    by (simp_all add: st2_def heap_body_nth length_heap_body h1 f1 frame_body wf_body w1)
  have "tick three_particles = forOf (Suc 0) st1"
    by (simp add: tick_def three_particles_simps forOf_round st1_def)
  also have "\<dots> = forOf (Suc (Suc 0)) st2"
    by (simp add: forOf_round p1 st2_def)
  also have "\<dots> = st2"
    by (rule forOf_done) (simp add: p2)
  finally have t: "tick three_particles = st2" .
  show "particles (tick three_particles) = [0, 2]"
    "heap (tick three_particles) ! 0 = stepped three_particles 0"
    "heap (tick three_particles) ! 2 = at_rest 3900 300"
    "length (heap (tick three_particles)) = 3"
    "center (tick three_particles) = \<lparr>pt_x = 2000, pt_y = 300\<rparr>"
    "innerWidth (tick three_particles) = 4000" "innerHeight (tick three_particles) = 600"
    "well_formed (tick three_particles)"
    unfolding t by (simp_all add: p2 h2)
qed

text \<open>Second tick, first round: the first particle reaches a distance below 32.\<close>

lemma three_round_2: "swallowed (step_r (tick three_particles) 0)"
proof -
  let ?st = "tick three_particles"
  let ?c = "center ?st" and ?q = "heap ?st ! 0"
  define x2 :: real where
    "x2 = 2034 + 11 / 16 +
       ((- 50 + 0.5 * (- (125 / 2) + - (1024000 / 12321)) * dt) * dt +
        0.5 * - (1024000 / 12321) * dt * dt)"
  have a: "p_y ?q = pt_y ?c" "p_vy ?q = 0" "pt_x ?c < p_x ?q"
    by (simp_all add: first_tick three_round_1)
  have a0: "- (1024000 / 12321) = - (G * M / ((p_x ?q - pt_x ?c) * (p_x ?q - pt_x ?c)))"
    by (simp add: first_tick three_round_1 G_def M_def)
  have x: "x2 = p_x ?q + (p_vx ?q * dt + 0.5 * - (1024000 / 12321) * dt * dt)"
    by (simp add: first_tick three_round_1 x2_def)
  have b: "pt_x ?c < x2" "x2 - pt_x ?c < 32"
    by (simp_all add: first_tick x2_def dt_def)
  have "step_r ?st 0 = x2 - pt_x ?c"
    unfolding step_r_def by (rule stepVerlet_axis(5) [OF a a0 x b(1)])
  then show ?thesis
    using b(2) by (simp add: swallowed_def BH_RADIUS_def)
qed

lemma tick_round: "particles st \<noteq> [] \<Longrightarrow> tick st = forOf (Suc 0) (body (particles st ! 0) st)"
  by (simp add: tick_def forOf_round)

lemma second_tick: "solo 0 (tick (tick three_particles))"
proof -
  let ?st = "tick three_particles"
  have c: "centered ?st"
    by (simp add: centered_def first_tick)
  have p: "particles (body 0 ?st) = [2]"
    using round_swallows [of ?st 0] first_tick(8) c three_round_2 by (simp add: first_tick)
  have "tick ?st = forOf (Suc 0) (body 0 ?st)"
    using tick_round [of ?st] by (simp add: first_tick)
  also have "\<dots> = body 0 ?st"
    by (rule forOf_done) (simp add: p)
  finally have t: "tick ?st = body 0 ?st" .
  show ?thesis
    unfolding t solo_def
    by (simp add: p frame_body first_tick length_heap_body heap_body_nth falling_def at_rest_def)
qed

text \<open>
  C6 fails on the code. In \<open>three_particles\<close> the third particle is registered during all of
  1201 ticks and is never removed. The loop skips it in the first tick (the second particle
  is removed in the round before its turn) and in the second tick (the first particle is),
  so only 1199 ticks step it and push on its trace: after more than 1200 ticks its trace has
  1199 entries, not 1200.
\<close>

theorem skipped_particle_has_short_trace:
  "particles three_particles = [0, 1, 2] \<and>
   p_trace (heap three_particles ! 2) = [] \<and>
   particles ((tick ^^ 1201) three_particles) = [2] \<and>
   length (p_trace (heap ((tick ^^ 1201) three_particles) ! 2)) = 1199"
proof -
  have "solo (0 + 1199) ((tick ^^ 1199) (tick (tick three_particles)))"
    using second_tick by (rule solo_ticks) simp
  moreover have "(tick ^^ 1199) (tick (tick three_particles)) = (tick ^^ 1201) three_particles"
  proof -
    have "(tick ^^ (1199 + 2)) three_particles = (tick ^^ 1199) ((tick ^^ 2) three_particles)"
      by (simp only: funpow_add o_apply)
    moreover have "(tick ^^ 2) three_particles = tick (tick three_particles)"
      by (simp add: numeral_2_eq_2)
    ultimately show ?thesis
      by simp
  qed
  ultimately have "solo 1199 ((tick ^^ 1201) three_particles)"
    by simp
  then show ?thesis
    by (simp add: solo_def falling_def three_particles_simps at_rest_def)
qed

end
